theory Spec2Isabelle
  imports Main "HOL-Library.Sublist"
begin

section \<open>Cornwall: stored values\<close>

text \<open>
  The project state is JSON. The values that reach the code modelled here are integers,
  floats and strings (\<open>parse_params\<close> in \<open>scripts/fx.py\<close> produces exactly these
  three). No arithmetic is done on a float: it is printed with \<open>str\<close> and compared with
  the literal \<open>1.0\<close>. A float is therefore represented by its \<open>repr\<close>, which Python
  guarantees to identify the float (\<open>float(repr(x)) == x\<close>, and \<open>str\<close> of a float is
  its \<open>repr\<close>).
\<close>

datatype pyval = PInt int | PFloat string | PStr string

fun str_nat :: "nat \<Rightarrow> string" where
  "str_nat n =
     (if n < 10 then [char_of (48 + n)]
      else str_nat (n div 10) @ [char_of (48 + n mod 10)])"

declare str_nat.simps [simp del]

definition str_int :: "int \<Rightarrow> string" where
  "str_int i = (if i < 0 then CHR ''-'' # str_nat (nat (- i)) else str_nat (nat i))"

text \<open>Python's \<open>str(v)\<close>.\<close>

fun py_str :: "pyval \<Rightarrow> string" where
  "py_str (PInt i) = str_int i"
| "py_str (PFloat r) = r"
| "py_str (PStr s) = s"

text \<open>Python's \<open>v != 1.0\<close>: an int equals the float when it is 1; a string never does.\<close>

fun ne_one :: "pyval \<Rightarrow> bool" where
  "ne_one (PInt i) = (i \<noteq> 1)"
| "ne_one (PFloat r) = (r \<noteq> ''1.0'')"
| "ne_one (PStr s) = True"

text \<open>Truth value of an optional number (\<open>if args.start:\<close>): absent and zero are false.\<close>

fun truthy :: "pyval option \<Rightarrow> bool" where
  "truthy None = False"
| "truthy (Some (PInt i)) = (i \<noteq> 0)"
| "truthy (Some (PFloat r)) = (r \<noteq> ''0.0'' \<and> r \<noteq> ''-0.0'')"
| "truthy (Some (PStr s)) = (s \<noteq> [])"

section \<open>Tracks and the active-track resolver (\<open>cornwall/state.py\<close>)\<close>

record track =
  track_id :: int
  track_name :: string
  track_type :: string
  source :: "string option"
  volume :: pyval
  pan :: pyval
  mute :: bool
  solo :: bool

text \<open>
  \<open>t["source"]\<close> used as a condition: \<open>None\<close> (no source attached) and the empty
  string are both false.
\<close>

definition has_source :: "track \<Rightarrow> bool" where
  "has_source t = (case source t of None \<Rightarrow> False | Some s \<Rightarrow> s \<noteq> [])"

text \<open>
  The list comprehension \<open>[t for t in tracks if c(t)]\<close>: one pass over the list in
  storage order, appending the tracks that satisfy the condition.
\<close>

fun comprehension :: "(track \<Rightarrow> bool) \<Rightarrow> track list \<Rightarrow> track list \<Rightarrow> track list" where
  "comprehension c [] acc = acc"
| "comprehension c (t # ts) acc = comprehension c ts (if c t then acc @ [t] else acc)"

definition get_active_tracks :: "track list \<Rightarrow> track list" where
  "get_active_tracks tracks =
     (let solo_tracks = comprehension (\<lambda>t. solo t \<and> has_source t) tracks []
      in if solo_tracks \<noteq> [] then solo_tracks
         else comprehension (\<lambda>t. \<not> mute t \<and> has_source t) tracks [])"

section \<open>Effect chains and the effect-chain compiler (\<open>cornwall/sox_effects.py\<close>)\<close>

text \<open>
  An effect is \<open>{"name": ..., "params": {...}}\<close>. The parameter dictionary is kept as
  the list of its items in insertion order (its keys are distinct, as in any dictionary);
  \<open>fx.get("params", {})\<close> reads a missing \<open>params\<close> entry as the empty dictionary.
\<close>

type_synonym pydict = "(string \<times> pyval) list"

record effect =
  fx_name :: string
  fx_params :: "pydict option"

definition get_params :: "effect \<Rightarrow> pydict" where
  "get_params fx = (case fx_params fx of None \<Rightarrow> [] | Some ps \<Rightarrow> ps)"

text \<open>\<open>params.get(k, d)\<close>, and \<open>if k in params: args.append(str(params[k]))\<close>.\<close>

definition dict_get :: "pydict \<Rightarrow> string \<Rightarrow> pyval \<Rightarrow> pyval" where
  "dict_get ps k d = (case map_of ps k of None \<Rightarrow> d | Some v \<Rightarrow> v)"

definition append_if_present :: "pydict \<Rightarrow> string \<Rightarrow> string list \<Rightarrow> string list" where
  "append_if_present ps k args =
     (case map_of ps k of None \<Rightarrow> args | Some v \<Rightarrow> args @ [py_str v])"

text \<open>\<open>for v in params.values(): args.append(str(v))\<close>\<close>

fun append_values :: "pydict \<Rightarrow> string list \<Rightarrow> string list" where
  "append_values [] args = args"
| "append_values (kv # ps) args = append_values ps (args @ [py_str (snd kv)])"

text \<open>
  The body of the loop of \<open>build_sox_effects\<close> for one effect: the \<open>if/elif\<close> chain in
  the order of the source (its two last \<open>elif\<close> branches repeat \<open>lowpass\<close> and
  \<open>highpass\<close> and are kept as written).
\<close>

definition fx_step :: "effect \<Rightarrow> string list \<Rightarrow> string list" where
  "fx_step fx args =
    (let name = fx_name fx; params = get_params fx in
     if name = ''reverb'' then
       append_if_present params ''room_scale''
         (append_if_present params ''hf_damping''
           (append_if_present params ''reverberance'' (args @ [''reverb''])))
     else if name = ''delay'' then
       args @ [''echo'',
         py_str (dict_get params ''gain_in'' (PFloat ''0.8'')),
         py_str (dict_get params ''gain_out'' (PFloat ''0.9'')),
         py_str (dict_get params ''delay_ms'' (PInt 500)),
         py_str (dict_get params ''decay'' (PFloat ''0.3''))]
     else if name = ''chorus'' then
       args @ [''chorus'',
         py_str (dict_get params ''gain_in'' (PFloat ''0.7'')),
         py_str (dict_get params ''gain_out'' (PFloat ''0.9'')),
         py_str (dict_get params ''delay_ms'' (PInt 55)),
         py_str (dict_get params ''decay'' (PFloat ''0.4'')),
         py_str (dict_get params ''speed'' (PFloat ''0.25'')),
         ''-'' @ py_str (dict_get params ''shape'' (PStr ''s''))]
     else if name = ''flanger'' then args @ [''flanger'']
     else if name = ''phaser'' then args @ [''phaser'']
     else if name = ''tremolo'' then
       append_if_present params ''depth''
         (args @ [''tremolo'', py_str (dict_get params ''speed'' (PInt 6))])
     else if name = ''overdrive'' then
       args @ [''overdrive'', py_str (dict_get params ''gain'' (PInt 20))]
     else if name = ''compressor'' then
       args @ [''compand'',
         py_str (dict_get params ''attack_decay'' (PStr ''0.3,1'')),
         py_str (dict_get params ''transfer'' (PStr ''6:-70,-60,-20''))]
     else if name = ''eq'' then
       args @ [''equalizer'',
         py_str (dict_get params ''frequency'' (PInt 1000)),
         py_str (dict_get params ''width'' (PStr ''1q'')),
         py_str (dict_get params ''gain'' (PInt 0))]
     else if name = ''bass'' then
       args @ [''bass'', py_str (dict_get params ''gain'' (PInt 0))]
     else if name = ''treble'' then
       args @ [''treble'', py_str (dict_get params ''gain'' (PInt 0))]
     else if name = ''lowpass'' then
       args @ [''lowpass'', py_str (dict_get params ''frequency'' (PInt 3000))]
     else if name = ''highpass'' then
       args @ [''highpass'', py_str (dict_get params ''frequency'' (PInt 300))]
     else if name = ''pitch'' then
       args @ [''pitch'', py_str (dict_get params ''cents'' (PInt 0))]
     else if name = ''tempo'' then
       args @ [''tempo'', py_str (dict_get params ''factor'' (PFloat ''1.0''))]
     else if name = ''norm'' then
       append_if_present params ''level'' (args @ [''norm''])
     else if name = ''fade'' then
       args @ [''fade'',
         py_str (dict_get params ''type'' (PStr ''t'')),
         py_str (dict_get params ''fade_in'' (PInt 0)),
         py_str (dict_get params ''stop'' (PInt 0)),
         py_str (dict_get params ''fade_out'' (PInt 0))]
     else if name = ''lowpass'' then
       args @ [''lowpass'', py_str (dict_get params ''frequency'' (PInt 3000))]
     else if name = ''highpass'' then
       args @ [''highpass'', py_str (dict_get params ''frequency'' (PInt 300))]
     else append_values params (args @ [name]))"

text \<open>\<open>args = []; for fx in effects: ...; return args\<close>\<close>

fun build_loop :: "effect list \<Rightarrow> string list \<Rightarrow> string list" where
  "build_loop [] args = args"
| "build_loop (fx # fxs) args = build_loop fxs (fx_step fx args)"

text \<open>
  The effects file maps \<open>str(track_id)\<close> to the chain of the track;
  \<open>get_track_effects\<close> reads a missing entry as the empty chain.
\<close>

type_synonym effects_store = "string \<rightharpoonup> effect list"

definition get_track_effects :: "effects_store \<Rightarrow> int \<Rightarrow> effect list" where
  "get_track_effects effects tid =
     (case effects (str_int tid) of None \<Rightarrow> [] | Some chain \<Rightarrow> chain)"

definition build_sox_effects :: "effects_store \<Rightarrow> int \<Rightarrow> string list" where
  "build_sox_effects effects tid = build_loop (get_track_effects effects tid) []"

text \<open>The keys of \<open>EFFECTS_CATALOG\<close> (\<open>scripts/fx.py\<close>): the fixed catalog.\<close>

definition catalog :: "string list" where
  "catalog = [''reverb'', ''delay'', ''chorus'', ''flanger'', ''phaser'', ''tremolo'',
     ''overdrive'', ''compressor'', ''eq'', ''bass'', ''treble'', ''lowpass'', ''highpass'',
     ''pitch'', ''tempo'', ''norm'', ''fade'']"

section \<open>The world outside: state files, file system, processes, external commands\<close>

text \<open>
  The scripts act on the JSON files under \<open>state/\<close>, on audio files, on the process
  table and on external commands. All of it is explicit here: a \<open>world\<close> is threaded
  through every operation, and what the operating system and the external programs answer
  is an \<open>env\<close>, over which every theorem quantifies.

  \<^item> The file system maps a path to a directory or to a file with its content. A path is
    the string the code builds; two spellings of one location are two paths.
  \<^item> The process table says what \<open>os.kill\<close> finds for an identifier during the
    invocation: a process that can be signalled, no process, or a process of another user.
  \<^item> \<open>trace\<close> lists the external actions in the order they are issued, tagged by the
    place that issues them.
\<close>

type_synonym path = string
type_synonym cmd = "string list"

datatype node = Dir | File string
type_synonym fs = "path \<rightharpoonup> node"

datatype exit = Exit0 | ExitNonZero | ExecNotFound

datatype pstate = Alive | Dead | Forbidden

datatype event =
    RenderTrack cmd
  | Combine cmd
  | Play cmd
  | Popen cmd
  | Pkill cmd
  | Sigterm int

record project =
  proj_name :: string
  proj_dir :: "string option"

record world =
  project_file :: "project option"
  tracks_file :: "track list"
  effects_file :: effects_store
  pid_file :: "string option"
  files :: fs
  procs :: "int \<Rightarrow> pstate"
  trace :: "event list"

text \<open>
  \<open>run\<close> is the external audio processor (\<open>sox\<close>, \<open>play\<close>) run to completion: its
  exit and what it leaves in the file system, whatever that is. \<open>popen\<close> starts a child
  and gives its process identifier, or nothing when the executable is missing.
  \<open>mkdtemp\<close> is the directory \<open>tempfile.TemporaryDirectory()\<close> creates and
  \<open>projects_dir\<close> is \<open>PROJECTS_DIR\<close>.
\<close>

record env =
  run :: "cmd \<Rightarrow> fs \<Rightarrow> exit \<times> fs"
  popen :: "cmd \<Rightarrow> int option"
  mkdtemp :: path
  projects_dir :: path

text \<open>
  Every way the scripts stop early. \<open>SystemExit\<close> with its message is one constructor
  per message; an exception nobody catches ends the script as well.
  \<^item> \<open>NoProjectLoaded\<close>: \<open>SystemExit("Error: No project loaded. ...")\<close>
  \<^item> \<open>TrackNotFound\<close>: \<open>SystemExit("Error: Track {id} not found")\<close>
  \<^item> \<open>NoAudioSource\<close>: "has no audio source", \<open>sys.exit(1)\<close>
  \<^item> \<open>NoActiveTracks\<close>: "Error: No active tracks with audio sources ...", \<open>sys.exit(1)\<close>
  \<^item> \<open>SoxNotFound\<close>: "Error: 'play' (SoX) not found", \<open>sys.exit(1)\<close>
  \<^item> \<open>PlaybackError\<close>: "Playback error: ...", \<open>sys.exit(1)\<close>
  \<^item> \<open>CalledProcessError\<close>, \<open>FileNotFoundError\<close>: \<open>subprocess.run(cmd, check=True)\<close>
    outside \<open>_run_sox\<close>, not caught
  \<^item> \<open>TypeError\<close>: \<open>None\<close> in an argument list; \<open>ValueError\<close>: \<open>int(args.target)\<close>;
    \<open>PermissionError\<close>: \<open>os.kill\<close> with \<open>SIGTERM\<close>
\<close>

datatype error =
    NoProjectLoaded
  | TrackNotFound int
  | NoAudioSource int
  | NoActiveTracks
  | SoxNotFound
  | PlaybackError cmd
  | CalledProcessError cmd
  | FileNotFoundError cmd
  | TypeError
  | ValueError string
  | PermissionError int

subsection \<open>Paths and temporary directories\<close>

text \<open>\<open>os.path.join(a, b)\<close> on POSIX.\<close>

definition path_join :: "path \<Rightarrow> path \<Rightarrow> path" where
  "path_join a b =
     (if b \<noteq> [] \<and> hd b = CHR ''/'' then b
      else if a = [] \<or> last a = CHR ''/'' then a @ b
      else a @ ''/'' @ b)"

text \<open>The paths \<open>shutil.rmtree(d)\<close> removes: \<open>d\<close> and everything below it.\<close>

definition in_tree :: "path \<Rightarrow> path \<Rightarrow> bool" where
  "in_tree d p =
     (p = d \<or> (d \<noteq> [] \<and> prefix (if last d = CHR ''/'' then d else d @ ''/'') p))"

definition rmtree :: "path \<Rightarrow> fs \<Rightarrow> fs" where
  "rmtree d f = (\<lambda>p. if in_tree d p then None else f p)"

text \<open>
  \<open>project_dir.mkdir(parents=True, exist_ok=True)\<close>: the directory exists afterwards;
  what is already at the path stays.
\<close>

definition mkdir :: "path \<Rightarrow> fs \<Rightarrow> fs" where
  "mkdir d f = (case f d of None \<Rightarrow> f(d \<mapsto> Dir) | Some n \<Rightarrow> f)"

subsection \<open>The state store (\<open>cornwall/state.py\<close>)\<close>

definition require_project :: "world \<Rightarrow> error + unit" where
  "require_project w = (case project_file w of None \<Rightarrow> Inl NoProjectLoaded | Some p \<Rightarrow> Inr ())"

text \<open>\<open>PROJECTS_DIR / project.get("project_dir", project["name"])\<close>\<close>

definition get_project_dir :: "env \<Rightarrow> world \<Rightarrow> error + path" where
  "get_project_dir e w =
     (case project_file w of
        None \<Rightarrow> Inl NoProjectLoaded
      | Some p \<Rightarrow> Inr (path_join (projects_dir e)
                        (case proj_dir p of None \<Rightarrow> proj_name p | Some d \<Rightarrow> d)))"

fun get_track :: "track list \<Rightarrow> int \<Rightarrow> track option" where
  "get_track [] i = None"
| "get_track (t # ts) i = (if track_id t = i then Some t else get_track ts i)"

definition require_track :: "world \<Rightarrow> int \<Rightarrow> error + track" where
  "require_track w i =
     (case get_track (tracks_file w) i of None \<Rightarrow> Inl (TrackNotFound i) | Some t \<Rightarrow> Inr t)"

subsection \<open>Reading an integer: \<open>int(PID_FILE.read_text().strip())\<close>\<close>






subsection \<open>The playback handle (\<open>cornwall/state.py\<close>)\<close>






section \<open>Playback and rendering (\<open>scripts/play.py\<close>, \<open>scripts/fx.py\<close>)\<close>

text \<open>
  \<open>subprocess.run(cmd)\<close>: the command is issued, and unless the executable is missing
  the file system is what the program leaves.
\<close>

definition subprocess_run :: "env \<Rightarrow> (cmd \<Rightarrow> event) \<Rightarrow> cmd \<Rightarrow> world \<Rightarrow> exit \<times> world" where
  "subprocess_run e tag c w =
     (case run e c (files w) of
        (ex, f') \<Rightarrow>
          (ex, w\<lparr>files := (if ex = ExecNotFound then files w else f'),
                 trace := trace w @ [tag c]\<rparr>))"

text \<open>\<open>subprocess.run(cmd, check=True)\<close> with nothing caught around it.\<close>

definition run_checked :: "env \<Rightarrow> (cmd \<Rightarrow> event) \<Rightarrow> cmd \<Rightarrow> world \<Rightarrow> (error + unit) \<times> world" where
  "run_checked e tag c w =
     (case subprocess_run e tag c w of
        (Exit0, w') \<Rightarrow> (Inr (), w')
      | (ExitNonZero, w') \<Rightarrow> (Inl (CalledProcessError c), w')
      | (ExecNotFound, w') \<Rightarrow> (Inl (FileNotFoundError c), w'))"

text \<open>\<open>_run_sox(args)\<close> in the foreground: both exceptions end in \<open>sys.exit(1)\<close>.\<close>

definition run_sox :: "env \<Rightarrow> cmd \<Rightarrow> world \<Rightarrow> (error + unit) \<times> world" where
  "run_sox e c w =
     (case subprocess_run e Play c w of
        (Exit0, w') \<Rightarrow> (Inr (), w')
      | (ExitNonZero, w') \<Rightarrow> (Inl (PlaybackError c), w')
      | (ExecNotFound, w') \<Rightarrow> (Inl SoxNotFound, w'))"


subsection \<open>Playing one track: \<open>cmd_track\<close> and \<open>cmd_preview\<close>\<close>

record track_args =
  arg_id :: int
  arg_start :: "pyval option"
  arg_duration :: "pyval option"

definition cmd_track :: "env \<Rightarrow> track_args \<Rightarrow> world \<Rightarrow> (error + unit) \<times> world" where
  "cmd_track e a w =
     (case require_project w of
        Inl err \<Rightarrow> (Inl err, w)
      | Inr u \<Rightarrow>
     (case require_track w (arg_id a) of
        Inl err \<Rightarrow> (Inl err, w)
      | Inr t \<Rightarrow>
     (case source t of
        None \<Rightarrow> (Inl (NoAudioSource (arg_id a)), w)
      | Some src \<Rightarrow>
          if src = [] then (Inl (NoAudioSource (arg_id a)), w)
          else
            let c = [''play'', src];
                c = (if ne_one (volume t) then c @ [''vol'', py_str (volume t)] else c);
                c = c @ build_sox_effects (effects_file w) (arg_id a);
                c = (case arg_start a of
                       None \<Rightarrow> c
                     | Some st \<Rightarrow>
                         if truthy (Some st) then
                           (let c = c @ [''trim'', py_str st]
                            in case arg_duration a of
                                 None \<Rightarrow> c
                               | Some du \<Rightarrow> if truthy (Some du) then c @ [py_str du] else c)
                         else c)
            in run_sox e c w)))"

text \<open>
  \<open>cmd_preview\<close> of \<open>scripts/fx.py\<close> calls \<open>subprocess.run(cmd, check=True)\<close> itself
  and catches \<open>FileNotFoundError\<close> only.
\<close>

definition cmd_preview :: "env \<Rightarrow> int \<Rightarrow> world \<Rightarrow> (error + unit) \<times> world" where
  "cmd_preview e tid w =
     (case require_project w of
        Inl err \<Rightarrow> (Inl err, w)
      | Inr u \<Rightarrow>
     (case require_track w tid of
        Inl err \<Rightarrow> (Inl err, w)
      | Inr t \<Rightarrow>
     (case source t of
        None \<Rightarrow> (Inl (NoAudioSource tid), w)
      | Some src \<Rightarrow>
          if src = [] then (Inl (NoAudioSource tid), w)
          else
            let c = [''play'', src];
                c = (if ne_one (volume t) then c @ [''vol'', py_str (volume t)] else c);
                c = c @ build_sox_effects (effects_file w) tid
            in (case subprocess_run e Play c w of
                  (Exit0, w') \<Rightarrow> (Inr (), w')
                | (ExitNonZero, w') \<Rightarrow> (Inl (CalledProcessError c), w')
                | (ExecNotFound, w') \<Rightarrow> (Inl SoxNotFound, w')))))"

subsection \<open>Rendering: \<open>_render_track_to_file\<close> and \<open>cmd_mix\<close>\<close>

definition render_track_to_file :: "env \<Rightarrow> track \<Rightarrow> path \<Rightarrow> world \<Rightarrow> (error + unit) \<times> world" where
  "render_track_to_file e t out w =
     (case source t of
        None \<Rightarrow> (Inl TypeError, w)
      | Some src \<Rightarrow>
          let c = [''sox'', src, out, ''vol'', py_str (volume t)];
              c = c @ build_sox_effects (effects_file w) (track_id t)
          in run_checked e RenderTrack c w)"

text \<open>
  The loop inside the \<open>with\<close> block: \<open>tmp = os.path.join(tmpdir, f"track_{t['id']}.wav")\<close>,
  render, \<open>tmp_files.append(tmp)\<close>. An exception leaves the loop.
\<close>

definition tmp_path :: "path \<Rightarrow> track \<Rightarrow> path" where
  "tmp_path tmpdir t = path_join tmpdir (''track_'' @ str_int (track_id t) @ ''.wav'')"

fun render_loop :: "env \<Rightarrow> path \<Rightarrow> track list \<Rightarrow> path list \<Rightarrow> world \<Rightarrow> (error + path list) \<times> world" where
  "render_loop e tmpdir [] tmp_files w = (Inr tmp_files, w)"
| "render_loop e tmpdir (t # ts) tmp_files w =
     (case render_track_to_file e t (tmp_path tmpdir t) w of
        (Inl err, w') \<Rightarrow> (Inl err, w')
      | (Inr u, w') \<Rightarrow> render_loop e tmpdir ts (tmp_files @ [tmp_path tmpdir t]) w')"

text \<open>
  \<open>with tempfile.TemporaryDirectory() as tmpdir:\<close> creates the directory, runs the
  body, and removes the directory with all it holds when the body is left, by its end or
  by an exception.
\<close>

definition with_tmpdir ::
  "env \<Rightarrow> (path \<Rightarrow> world \<Rightarrow> (error + unit) \<times> world) \<Rightarrow> world \<Rightarrow> (error + unit) \<times> world" where
  "with_tmpdir e body w =
     (let tmpdir = mkdtemp e
      in case body tmpdir (w\<lparr>files := (files w)(tmpdir \<mapsto> Dir)\<rparr>) of
           (r, w') \<Rightarrow> (r, w'\<lparr>files := rmtree tmpdir (files w')\<rparr>))"

definition mix_body :: "env \<Rightarrow> track list \<Rightarrow> path \<Rightarrow> path \<Rightarrow> world \<Rightarrow> (error + unit) \<times> world" where
  "mix_body e active out tmpdir w =
     (case render_loop e tmpdir active [] w of
        (Inl err, w') \<Rightarrow> (Inl err, w')
      | (Inr tmp_files, w') \<Rightarrow> run_checked e Combine ([''sox'', ''-m''] @ tmp_files @ [out]) w')"

text \<open>
  \<open>if len(active) == 1: ... else: ...\<close>, written twice in the source with the same
  body (in \<open>cmd_mix\<close>, and in \<open>cmd_loop\<close> for the target \<open>mix\<close>); \<open>active\<close> is not empty
  where it is reached.
\<close>

definition render_active :: "env \<Rightarrow> track list \<Rightarrow> path \<Rightarrow> world \<Rightarrow> (error + unit) \<times> world" where
  "render_active e active out w =
     (case active of
        [t] \<Rightarrow> render_track_to_file e t out w
      | _ \<Rightarrow> with_tmpdir e (mix_body e active out) w)"

record mix_args =
  arg_output :: "string option"
  arg_no_play :: bool

text \<open>\<open>args.output or str(project_dir / "mix.wav")\<close>\<close>

definition output_path :: "string option \<Rightarrow> path \<Rightarrow> path" where
  "output_path out project_dir =
     (case out of
        None \<Rightarrow> path_join project_dir ''mix.wav''
      | Some s \<Rightarrow> if s = [] then path_join project_dir ''mix.wav'' else s)"

definition cmd_mix :: "env \<Rightarrow> mix_args \<Rightarrow> world \<Rightarrow> (error + unit) \<times> world" where
  "cmd_mix e a w =
     (case require_project w of
        Inl err \<Rightarrow> (Inl err, w)
      | Inr u \<Rightarrow>
          let active = get_active_tracks (tracks_file w)
          in if active = [] then (Inl NoActiveTracks, w)
             else (case get_project_dir e w of
                     Inl err \<Rightarrow> (Inl err, w)
                   | Inr project_dir \<Rightarrow>
                       let w1 = w\<lparr>files := mkdir project_dir (files w)\<rparr>;
                           out = output_path (arg_output a) project_dir
                       in (case render_active e active out w1 of
                             (Inl err, w2) \<Rightarrow> (Inl err, w2)
                           | (Inr u, w2) \<Rightarrow>
                               if \<not> arg_no_play a then run_sox e [''play'', out] w2
                               else (Inr (), w2))))"

definition cmd_render :: "env \<Rightarrow> mix_args \<Rightarrow> world \<Rightarrow> (error + unit) \<times> world" where
  "cmd_render e a w = cmd_mix e (a\<lparr>arg_no_play := True\<rparr>) w"

subsection \<open>Background playback: \<open>cmd_loop\<close>, \<open>cmd_stop\<close>, \<open>cmd_status\<close>\<close>








section \<open>Notions used in the statements\<close>

text \<open>
  The render-track command for a track \<open>t\<close> written to \<open>out\<close>, as
  \<open>_render_track_to_file\<close> builds it for a track that has a source, and the issued
  render-track invocations of a list of tracks rendered into a temporary directory.
\<close>

definition src_of :: "track \<Rightarrow> string" where
  "src_of t = (case source t of None \<Rightarrow> [] | Some s \<Rightarrow> s)"

definition render_cmd :: "effects_store \<Rightarrow> track \<Rightarrow> path \<Rightarrow> cmd" where
  "render_cmd fx t out =
     [''sox'', src_of t, out, ''vol'', py_str (volume t)] @ build_sox_effects fx (track_id t)"

definition tmp_renders :: "effects_store \<Rightarrow> path \<Rightarrow> track list \<Rightarrow> event list" where
  "tmp_renders fx tmpdir ts = map (\<lambda>t. RenderTrack (render_cmd fx t (tmp_path tmpdir t))) ts"

definition combine_cmd :: "path \<Rightarrow> track list \<Rightarrow> path \<Rightarrow> cmd" where
  "combine_cmd tmpdir ts out = [''sox'', ''-m''] @ map (tmp_path tmpdir) ts @ [out]"

text \<open>The final output path of \<open>cmd_mix\<close> in a world with a project.\<close>

definition final_output :: "env \<Rightarrow> mix_args \<Rightarrow> world \<Rightarrow> path" where
  "final_output e a w =
     (case get_project_dir e w of
        Inl err \<Rightarrow> []
      | Inr project_dir \<Rightarrow> output_path (arg_output a) project_dir)"

section \<open>Example data\<close>

text \<open>Concrete tracks, effects, environments and worlds, on which the theorems are run.\<close>

definition ex_track :: "int \<Rightarrow> string option \<Rightarrow> pyval \<Rightarrow> bool \<Rightarrow> bool \<Rightarrow> track" where
  "ex_track i src vol m so =
     \<lparr>track_id = i, track_name = ''take'', track_type = ''audio'', source = src,
      volume = vol, pan = PFloat ''0.0'', mute = m, solo = so\<rparr>"

definition ex_raw_fx :: effect where
  "ex_raw_fx = \<lparr>fx_name = ''gain'', fx_params = Some [(''db'', PInt (-3)), (''mode'', PStr ''n'')]\<rparr>"

definition ex_reverb_fx :: effect where
  "ex_reverb_fx = \<lparr>fx_name = ''reverb'', fx_params = Some [(''room_scale'', PInt 100)]\<rparr>"

text \<open>
  An external processor that writes its output file and succeeds, and one that leaves a
  truncated output file and fails. The output of \<open>sox -m in ... out\<close> is its last
  argument, that of \<open>sox in out ...\<close> its third; \<open>play\<close> writes nothing.
\<close>

definition ex_out_arg :: "cmd \<Rightarrow> path option" where
  "ex_out_arg c =
     (case c of
        prog # a1 # a2 # rest \<Rightarrow>
          if prog = ''sox'' then Some (if a1 = ''-m'' then last (a2 # rest) else a2) else None
      | _ \<Rightarrow> None)"

definition ex_sox_ok :: "cmd \<Rightarrow> fs \<Rightarrow> exit \<times> fs" where
  "ex_sox_ok c f =
     (case ex_out_arg c of None \<Rightarrow> (Exit0, f) | Some p \<Rightarrow> (Exit0, f(p \<mapsto> File ''RIFF complete'')))"

definition ex_sox_truncating :: "cmd \<Rightarrow> fs \<Rightarrow> exit \<times> fs" where
  "ex_sox_truncating c f =
     (case ex_out_arg c of None \<Rightarrow> (ExitNonZero, f) | Some p \<Rightarrow> (ExitNonZero, f(p \<mapsto> File ''RIFF trunc'')))"

text \<open>A processor that renders single tracks but fails, leaving a truncated file, when it combines.\<close>

definition ex_sox_combine_fails :: "cmd \<Rightarrow> fs \<Rightarrow> exit \<times> fs" where
  "ex_sox_combine_fails c f =
     (if take 2 c = [''sox'', ''-m''] then ex_sox_truncating c f else ex_sox_ok c f)"

definition ex_env :: "(cmd \<Rightarrow> fs \<Rightarrow> exit \<times> fs) \<Rightarrow> env" where
  "ex_env sox =
     \<lparr>run = sox, popen = (\<lambda>c. Some 4321), mkdtemp = ''/tmp/tmpk3'', projects_dir = ''/cornwall/projects''\<rparr>"

definition ex_world :: "track list \<Rightarrow> string option \<Rightarrow> world" where
  "ex_world ts handle =
     \<lparr>project_file = Some \<lparr>proj_name = ''demo'', proj_dir = Some ''demo''\<rparr>,
      tracks_file = ts,
      effects_file = Map.empty(''1'' \<mapsto> [ex_reverb_fx]),
      pid_file = handle,
      files = Map.empty(''/cornwall/projects/demo/mix.wav'' \<mapsto> File ''RIFF previous''),
      procs = (\<lambda>p. if p = 977 then Alive else if p = 1 then Forbidden else Dead),
      trace = []\<rparr>"

section \<open>Properties\<close>

lemma comprehension_filter: "comprehension c ts acc = acc @ filter c ts"
  by (induction ts arbitrary: acc) auto

text \<open>
  C1. Let S be the tracks with \<open>solo\<close> set and a source. If S is not empty the resolver
  returns exactly S, otherwise exactly the tracks that are not muted and have a source.
  In both branches every returned track has a source, so a track without one is never
  returned, and the result is a subsequence of the stored list (storage order is kept).
\<close>

theorem get_active_tracks_resolves:
  "get_active_tracks tracks =
     (if filter (\<lambda>t. solo t \<and> has_source t) tracks \<noteq> []
      then filter (\<lambda>t. solo t \<and> has_source t) tracks
      else filter (\<lambda>t. \<not> mute t \<and> has_source t) tracks)
   \<and> (\<forall>t. \<not> has_source t \<longrightarrow> t \<notin> set (get_active_tracks tracks))
   \<and> subseq (get_active_tracks tracks) tracks"
  by (auto simp: get_active_tracks_def comprehension_filter Let_def)

theorem get_active_tracks_resolves_witness:
  "get_active_tracks
     [ex_track 1 (Some ''a.wav'') (PInt 1) False False,
      ex_track 2 (Some ''b.wav'') (PInt 1) True True,
      ex_track 3 None (PInt 1) False True]
   = [ex_track 2 (Some ''b.wav'') (PInt 1) True True]
   \<and> \<not> has_source (ex_track 3 None (PInt 1) False True)
   \<and> ex_track 3 None (PInt 1) False True \<notin> set (get_active_tracks
     [ex_track 1 (Some ''a.wav'') (PInt 1) False False,
      ex_track 2 (Some ''b.wav'') (PInt 1) True True,
      ex_track 3 None (PInt 1) False True])"
  using get_active_tracks_resolves
    [of "[ex_track 1 (Some ''a.wav'') (PInt 1) False False,
          ex_track 2 (Some ''b.wav'') (PInt 1) True True,
          ex_track 3 None (PInt 1) False True]"]
  by (simp add: ex_track_def has_source_def)

subsection \<open>The effect-chain compiler\<close>

lemma append_values_eq: "append_values ps args = args @ map (\<lambda>kv. py_str (snd kv)) ps"
  by (induction ps arbitrary: args) auto

lemma append_if_present_eq: "append_if_present ps k args = args @ append_if_present ps k []"
  by (simp add: append_if_present_def split: option.splits)

lemma fx_step_append: "fx_step fx args = args @ fx_step fx []"
  unfolding fx_step_def Let_def
  by (simp add: append_values_eq append_if_present_eq[of _ _ "_ @ _"]
        append_if_present_eq[of _ _ "_ # _"])

lemma build_loop_eq: "build_loop fxs args = args @ concat (map (\<lambda>fx. fx_step fx []) fxs)"
proof (induction fxs arbitrary: args)
  case Nil
  show ?case by simp
next
  case (Cons fx fxs)
  show ?case
    using Cons[of "fx_step fx args"] fx_step_append[of fx args] by simp
qed

lemma fx_step_pass_through:
  "fx_name fx \<notin> set catalog \<Longrightarrow>
   fx_step fx [] = fx_name fx # map (\<lambda>kv. py_str (snd kv)) (get_params fx)"
  unfolding fx_step_def Let_def catalog_def
  by (simp add: append_values_eq)

text \<open>
  C9. An effect whose name is not in the catalog, at any place of a chain, contributes
  its name as one token followed by the \<open>str\<close> of each parameter value, one token each,
  in the insertion order of the parameters, and no key: the compiled chain is what is
  compiled before it, these tokens, and what is compiled after it. With no parameter the
  name alone is emitted.
\<close>

theorem pass_through_compilation:
  "fx_name fx \<notin> set catalog \<Longrightarrow>
   effects (str_int tid) = Some (before @ fx # after) \<Longrightarrow>
   build_sox_effects effects tid =
     build_loop before [] @
     (fx_name fx # map (\<lambda>kv. py_str (snd kv)) (get_params fx)) @
     build_loop after []
   \<and> fx_step fx [] = fx_name fx # map (\<lambda>kv. py_str (snd kv)) (get_params fx)
   \<and> length (fx_step fx []) = 1 + length (get_params fx)"
  by (simp add: build_sox_effects_def get_track_effects_def build_loop_eq
        fx_step_pass_through)

theorem pass_through_compilation_witness:
  "fx_name ex_raw_fx \<notin> set catalog
   \<and> build_sox_effects (Map.empty(''7'' \<mapsto> [ex_reverb_fx] @ ex_raw_fx # [])) 7
       = [''reverb'', ''100'', ''gain'', ''-3'', ''n'']
   \<and> fx_step (ex_raw_fx\<lparr>fx_params := None\<rparr>) [] = [''gain'']"
proof -
  have a: "fx_name ex_raw_fx \<notin> set catalog"
    by (simp add: ex_raw_fx_def catalog_def)
  have b: "(Map.empty(''7'' \<mapsto> [ex_reverb_fx] @ ex_raw_fx # [])) (str_int 7)
             = Some ([ex_reverb_fx] @ ex_raw_fx # [])"
    by code_simp
  have c: "build_loop [ex_reverb_fx] [] = [''reverb'', ''100'']"
    by code_simp
  have d: "map (\<lambda>kv. py_str (snd kv)) (get_params ex_raw_fx) = [''-3'', ''n'']"
    by code_simp
  have e: "fx_name (ex_raw_fx\<lparr>fx_params := None\<rparr>) \<notin> set catalog"
    by (simp add: ex_raw_fx_def catalog_def)
  have f: "(Map.empty(''7'' \<mapsto> [] @ ex_raw_fx\<lparr>fx_params := None\<rparr> # [])) (str_int 7)
             = Some ([] @ ex_raw_fx\<lparr>fx_params := None\<rparr> # [])"
    by code_simp
  show ?thesis
    using a b c d e f
      pass_through_compilation
        [where fx = ex_raw_fx and tid = 7 and before = "[ex_reverb_fx]" and after = "[]"
           and effects = "Map.empty(''7'' \<mapsto> [ex_reverb_fx] @ ex_raw_fx # [])"]
      pass_through_compilation
        [where fx = "ex_raw_fx\<lparr>fx_params := None\<rparr>" and tid = 7 and before = "[]"
           and after = "[]"
           and effects = "Map.empty(''7'' \<mapsto> [] @ ex_raw_fx\<lparr>fx_params := None\<rparr> # [])"]
    by (simp add: ex_raw_fx_def get_params_def)
qed

subsection \<open>Commands issued for one track\<close>

lemma get_track_id: "get_track ts i = Some t \<Longrightarrow> track_id t = i"
  by (induction ts) (auto split: if_splits)

lemma trace_subprocess_run: "trace (snd (subprocess_run e tag c w)) = trace w @ [tag c]"
  by (simp add: subprocess_run_def split: prod.splits)

lemma trace_case_exit:
  "trace (snd (case subprocess_run e tag c w of
                 (Exit0, w') \<Rightarrow> (r1, w')
               | (ExitNonZero, w') \<Rightarrow> (r2, w')
               | (ExecNotFound, w') \<Rightarrow> (r3, w'))) = trace w @ [tag c]"
  using trace_subprocess_run[of e tag c w]
  by (cases "subprocess_run e tag c w") (auto split: exit.splits)

lemma trace_run_checked: "trace (snd (run_checked e tag c w)) = trace w @ [tag c]"
  by (simp add: run_checked_def trace_case_exit)

lemma trace_run_sox: "trace (snd (run_sox e c w)) = trace w @ [Play c]"
  by (simp add: run_sox_def trace_case_exit)

lemma trace_render_track_to_file:
  "source t = Some src \<Longrightarrow>
   trace (snd (render_track_to_file e t out w)) =
     trace w @ [RenderTrack ([''sox'', src, out, ''vol'', py_str (volume t)] @
                             build_sox_effects (effects_file w) (track_id t))]"
  by (simp add: render_track_to_file_def trace_run_checked)

lemma trace_cmd_track:
  assumes "project_file w \<noteq> None" and "get_track (tracks_file w) (arg_id a) = Some t"
      and "source t = Some src" and "src \<noteq> []"
  shows "\<exists>trim. trace (snd (cmd_track e a w)) =
           trace w @ [Play ([''play'', src] @
                            (if ne_one (volume t) then [''vol'', py_str (volume t)] else []) @
                            build_sox_effects (effects_file w) (track_id t) @ trim)]
         \<and> (\<not> truthy (arg_start a) \<longrightarrow> trim = [])"
  using assms get_track_id[OF assms(2)]
  by (auto simp: cmd_track_def require_project_def require_track_def trace_run_sox Let_def
        split: option.splits)

lemma trace_cmd_preview:
  assumes "project_file w \<noteq> None" and "get_track (tracks_file w) i = Some t"
      and "source t = Some src" and "src \<noteq> []"
  shows "trace (snd (cmd_preview e i w)) =
           trace w @ [Play ([''play'', src] @
                            (if ne_one (volume t) then [''vol'', py_str (volume t)] else []) @
                            build_sox_effects (effects_file w) (track_id t))]"
  using assms get_track_id[OF assms(2)]
  by (auto simp: cmd_preview_def require_project_def require_track_def Let_def trace_case_exit
        split: option.splits)

text \<open>
  C10. For a stored track with a source: the command of \<open>_render_track_to_file\<close> is
  \<open>sox\<close>, the source, the output, then \<open>vol\<close> and \<open>str(volume)\<close> whatever the volume
  is, then the compiled chain. The commands of \<open>cmd_track\<close> and \<open>cmd_preview\<close> are
  \<open>play\<close>, the source, then \<open>vol\<close> and \<open>str(volume)\<close> exactly when
  \<open>volume != 1.0\<close>, then the same compiled chain (\<open>cmd_track\<close> may add \<open>trim\<close>
  arguments behind it).
\<close>

theorem unity_volume_asymmetry:
  assumes "project_file w \<noteq> None" and "get_track (tracks_file w) i = Some t"
      and "source t = Some src" and "src \<noteq> []" and "arg_id a = i"
  shows "trace (snd (render_track_to_file e t out w)) =
           trace w @ [RenderTrack ([''sox'', src, out, ''vol'', py_str (volume t)] @
                                   build_sox_effects (effects_file w) i)]
       \<and> (\<exists>trim. trace (snd (cmd_track e a w)) =
             trace w @ [Play ([''play'', src] @
                              (if ne_one (volume t) then [''vol'', py_str (volume t)] else []) @
                              build_sox_effects (effects_file w) i @ trim)]
            \<and> (\<not> truthy (arg_start a) \<longrightarrow> trim = []))
       \<and> trace (snd (cmd_preview e i w)) =
           trace w @ [Play ([''play'', src] @
                            (if ne_one (volume t) then [''vol'', py_str (volume t)] else []) @
                            build_sox_effects (effects_file w) i)]"
proof -
  have tid: "track_id t = i" using assms(2) by (rule get_track_id)
  have a2: "get_track (tracks_file w) (arg_id a) = Some t" using assms(2,5) by simp
  show ?thesis
    using trace_render_track_to_file[OF assms(3), of e out w]
      trace_cmd_track[OF assms(1) a2 assms(3,4), of e]
      trace_cmd_preview[OF assms(1,2,3,4), of e]
    by (simp add: tid)
qed


theorem unity_volume_asymmetry_witness:
  "trace (snd (render_track_to_file (ex_env ex_sox_ok)
       (ex_track 1 (Some ''drums.wav'') (PFloat ''1.0'') False False) ''out.wav''
       (ex_world [ex_track 1 (Some ''drums.wav'') (PFloat ''1.0'') False False] None)))
     = [RenderTrack [''sox'', ''drums.wav'', ''out.wav'', ''vol'', ''1.0'', ''reverb'', ''100'']]
   \<and> trace (snd (cmd_track (ex_env ex_sox_ok) \<lparr>arg_id = 1, arg_start = None, arg_duration = None\<rparr>
       (ex_world [ex_track 1 (Some ''drums.wav'') (PFloat ''1.0'') False False] None)))
     = [Play [''play'', ''drums.wav'', ''reverb'', ''100'']]
   \<and> trace (snd (cmd_preview (ex_env ex_sox_ok) 1
       (ex_world [ex_track 1 (Some ''drums.wav'') (PFloat ''1.0'') False False] None)))
     = [Play [''play'', ''drums.wav'', ''reverb'', ''100'']]"
proof -
  let ?t = "ex_track 1 (Some ''drums.wav'') (PFloat ''1.0'') False False"
  let ?w = "ex_world [?t] None"
  let ?a = "\<lparr>arg_id = 1, arg_start = None, arg_duration = None\<rparr>"
  have h1: "project_file ?w \<noteq> None" by (simp add: ex_world_def)
  have h2: "get_track (tracks_file ?w) 1 = Some ?t" by (simp add: ex_world_def ex_track_def)
  have h3: "source ?t = Some ''drums.wav''" by (simp add: ex_track_def)
  have h4: "''drums.wav'' \<noteq> []" by simp
  have h5: "arg_id ?a = 1" by simp
  have fx: "build_sox_effects (effects_file ?w) 1 = [''reverb'', ''100'']"
    unfolding ex_world_def by code_simp
  have v: "\<not> ne_one (volume ?t)" "py_str (volume ?t) = ''1.0''" by (simp_all add: ex_track_def)
  have tr: "trace ?w = []" by (simp add: ex_world_def)
  show ?thesis
    using unity_volume_asymmetry[OF h1 h2 h3 h4 h5, of "ex_env ex_sox_ok" "''out.wav''"] fx v tr
    by auto
qed

subsection \<open>The render pipeline\<close>

lemma has_source_src_of: "has_source t \<Longrightarrow> source t = Some (src_of t)"
  by (auto simp: has_source_def src_of_def split: option.splits)


lemma run_checked_frame:
  "run_checked e tag c w = (r, w') \<Longrightarrow>
   effects_file w' = effects_file w \<and> project_file w' = project_file w \<and>
   tracks_file w' = tracks_file w \<and> pid_file w' = pid_file w \<and> procs w' = procs w \<and>
   trace w' = trace w @ [tag c]"
  by (cases "run e c (files w)")
     (auto simp: run_checked_def subprocess_run_def split: exit.splits)

lemma render_track_frame:
  assumes "has_source t" and "render_track_to_file e t out w = (r, w')"
  shows "effects_file w' = effects_file w \<and> project_file w' = project_file w \<and>
         tracks_file w' = tracks_file w \<and> pid_file w' = pid_file w \<and> procs w' = procs w \<and>
         trace w' = trace w @ [RenderTrack (render_cmd (effects_file w) t out)]"
  using run_checked_frame[of e RenderTrack "render_cmd (effects_file w) t out" w r w'] assms
    has_source_src_of[OF assms(1)]
  by (simp add: render_track_to_file_def render_cmd_def Let_def)

lemma render_track_failure:
  assumes "has_source t" and "render_track_to_file e t out w = (Inl err, w')"
  shows "fst (run e (render_cmd (effects_file w) t out) (files w)) \<noteq> Exit0"
proof
  assume "fst (run e (render_cmd (effects_file w) t out) (files w)) = Exit0"
  then have "fst (run_checked e RenderTrack (render_cmd (effects_file w) t out) w) = Inr ()"
    by (cases "run e (render_cmd (effects_file w) t out) (files w)")
       (simp add: run_checked_def subprocess_run_def)
  then show False
    using assms has_source_src_of[OF assms(1)]
    by (simp add: render_track_to_file_def render_cmd_def Let_def)
qed

text \<open>
  The loop: when it ends normally every track was rendered, in order, and the temporary
  files are the paths of all tracks; when it is left by an error, the tracks up to the
  failing one were rendered and no other, and the processor did not exit with status 0
  on the last of them.
\<close>

lemma render_loop_trace:
  assumes "\<forall>t \<in> set ts. has_source t" and "render_loop e d ts acc w = (r, w')"
  shows "effects_file w' = effects_file w \<and> project_file w' = project_file w \<and>
         tracks_file w' = tracks_file w \<and> pid_file w' = pid_file w \<and> procs w' = procs w \<and>
         (case r of
            Inr tmp_files \<Rightarrow>
              tmp_files = acc @ map (tmp_path d) ts \<and>
              trace w' = trace w @ tmp_renders (effects_file w) d ts
          | Inl err \<Rightarrow>
              (\<exists>k < length ts.
                 trace w' = trace w @ tmp_renders (effects_file w) d (take (Suc k) ts) \<and>
                 (\<exists>f. fst (run e (render_cmd (effects_file w) (ts ! k) (tmp_path d (ts ! k))) f)
                        \<noteq> Exit0)))"
  using assms
proof (induction ts arbitrary: acc w)
  case Nil
  then show ?case by (auto simp: tmp_renders_def)
next
  case (Cons t ts)
  obtain r1 w1 where r1: "render_track_to_file e t (tmp_path d t) w = (r1, w1)"
    by (cases "render_track_to_file e t (tmp_path d t) w")
  have src: "has_source t" using Cons.prems(1) by simp
  note fr = render_track_frame[OF src r1]
  show ?case
  proof (cases r1)
    case (Inl err)
    then have res: "r = Inl err" "w' = w1" using Cons.prems(2) r1 by auto
    have "fst (run e (render_cmd (effects_file w) t (tmp_path d t)) (files w)) \<noteq> Exit0"
      using render_track_failure[OF src] r1 Inl by simp
    then have "\<exists>f. fst (run e (render_cmd (effects_file w) ((t # ts) ! 0)
                        (tmp_path d ((t # ts) ! 0))) f) \<noteq> Exit0"
      by auto
    then show ?thesis using fr res by (auto simp: tmp_renders_def intro!: exI[of _ 0])
  next
    case (Inr u)
    then have rec: "render_loop e d ts (acc @ [tmp_path d t]) w1 = (r, w')"
      using Cons.prems(2) r1 by simp
    have all: "\<forall>t \<in> set ts. has_source t" using Cons.prems(1) by simp
    note ih = Cons.IH[OF all rec]
    show ?thesis
    proof (cases r)
      case (Inr tmp_files)
      then show ?thesis using ih fr by (simp add: tmp_renders_def)
    next
      case (Inl err)
      then obtain k where "k < length ts"
        "trace w' = trace w1 @ tmp_renders (effects_file w1) d (take (Suc k) ts)"
        "\<exists>f. fst (run e (render_cmd (effects_file w1) (ts ! k) (tmp_path d (ts ! k))) f) \<noteq> Exit0"
        using ih by auto
      then have "Suc k < length (t # ts) \<and>
        trace w' = trace w @ tmp_renders (effects_file w) d (take (Suc (Suc k)) (t # ts)) \<and>
        (\<exists>f. fst (run e (render_cmd (effects_file w) ((t # ts) ! Suc k)
                       (tmp_path d ((t # ts) ! Suc k))) f) \<noteq> Exit0)"
        using fr by (simp add: tmp_renders_def)
      then have ex: "\<exists>k < length (t # ts).
          trace w' = trace w @ tmp_renders (effects_file w) d (take (Suc k) (t # ts)) \<and>
          (\<exists>f. fst (run e (render_cmd (effects_file w) ((t # ts) ! k)
                         (tmp_path d ((t # ts) ! k))) f) \<noteq> Exit0)"
        by (intro exI[of _ "Suc k"])
      have frame: "effects_file w' = effects_file w \<and> project_file w' = project_file w \<and>
         tracks_file w' = tracks_file w \<and> pid_file w' = pid_file w \<and> procs w' = procs w"
        using ih fr by simp
      show ?thesis unfolding Inl sum.case using frame ex by blast
    qed
  qed
qed

lemma mix_body_trace:
  assumes "\<forall>t \<in> set ts. has_source t" and "mix_body e ts out d w = (r, w')"
  shows "(\<exists>k < length ts. \<exists>err. r = Inl err \<and>
            trace w' = trace w @ tmp_renders (effects_file w) d (take (Suc k) ts) \<and>
               (\<exists>f. fst (run e (render_cmd (effects_file w) (ts ! k) (tmp_path d (ts ! k))) f)
                      \<noteq> Exit0))
         \<or> trace w' = trace w @ tmp_renders (effects_file w) d ts @ [Combine (combine_cmd d ts out)]"
proof -
  obtain r1 w1 where loop: "render_loop e d ts [] w = (r1, w1)"
    by (cases "render_loop e d ts [] w")
  note lt = render_loop_trace[OF assms(1) loop]
  show ?thesis
  proof (cases r1)
    case (Inl err)
    then have "r = Inl err" "w' = w1" using assms(2) loop by (auto simp: mix_body_def)
    then show ?thesis using lt Inl by auto
  next
    case (Inr tmp_files)
    then have tf: "tmp_files = map (tmp_path d) ts"
      and tr: "trace w1 = trace w @ tmp_renders (effects_file w) d ts"
      using lt by auto
    have "run_checked e Combine (combine_cmd d ts out) w1 = (r, w')"
      using assms(2) loop Inr tf by (simp add: mix_body_def combine_cmd_def)
    from run_checked_frame[OF this] tr show ?thesis by simp
  qed
qed

lemma mix_body_success:
  assumes "\<forall>t \<in> set ts. has_source t" and "mix_body e ts out d w = (Inr u, w')"
  shows "trace w' = trace w @ tmp_renders (effects_file w) d ts @ [Combine (combine_cmd d ts out)]"
  using mix_body_trace[OF assms] by auto



lemma render_active_multi:
  "2 \<le> length ts \<Longrightarrow> render_active e ts out w = with_tmpdir e (mix_body e ts out) w"
  by (cases ts; cases "tl ts") (auto simp: render_active_def)


lemma cmd_mix_unfold:
  assumes "project_file w \<noteq> None" and "get_active_tracks (tracks_file w) \<noteq> []"
  shows "\<exists>pd. get_project_dir e w = Inr pd \<and>
           final_output e a w = output_path (arg_output a) pd \<and>
           cmd_mix e a w =
             (case render_active e (get_active_tracks (tracks_file w)) (final_output e a w)
                     (w\<lparr>files := mkdir pd (files w)\<rparr>) of
                (Inl err, w2) \<Rightarrow> (Inl err, w2)
              | (Inr u, w2) \<Rightarrow>
                  if \<not> arg_no_play a then run_sox e [''play'', final_output e a w] w2
                  else (Inr (), w2))"
proof -
  obtain p where p: "project_file w = Some p" using assms(1) by auto
  define pd where "pd = path_join (projects_dir e) (case proj_dir p of None \<Rightarrow> proj_name p | Some d \<Rightarrow> d)"
  have g: "get_project_dir e w = Inr pd" using p by (simp add: get_project_dir_def pd_def)
  have fo: "final_output e a w = output_path (arg_output a) pd" using g by (simp add: final_output_def)
  have "cmd_mix e a w =
             (case render_active e (get_active_tracks (tracks_file w)) (output_path (arg_output a) pd)
                     (w\<lparr>files := mkdir pd (files w)\<rparr>) of
                (Inl err, w2) \<Rightarrow> (Inl err, w2)
              | (Inr u, w2) \<Rightarrow>
                  if \<not> arg_no_play a then run_sox e [''play'', output_path (arg_output a) pd] w2
                  else (Inr (), w2))"
    using p g assms(2) by (simp add: cmd_mix_def require_project_def Let_def)
  then have "cmd_mix e a w =
             (case render_active e (get_active_tracks (tracks_file w)) (final_output e a w)
                     (w\<lparr>files := mkdir pd (files w)\<rparr>) of
                (Inl err, w2) \<Rightarrow> (Inl err, w2)
              | (Inr u, w2) \<Rightarrow>
                  if \<not> arg_no_play a then run_sox e [''play'', final_output e a w] w2
                  else (Inr (), w2))"
    unfolding fo[symmetric] .
  with g fo show ?thesis by blast
qed


text \<open>
  C8. With a project loaded and no active track, \<open>cmd_mix\<close> and \<open>cmd_render\<close> end with
  the "no active tracks" exit and leave the world as it was: no command is issued and no
  file is written.
\<close>

theorem zero_active_tracks_fail:
  "project_file w \<noteq> None \<Longrightarrow> get_active_tracks (tracks_file w) = [] \<Longrightarrow>
   cmd_mix e a w = (Inl NoActiveTracks, w) \<and> cmd_render e a w = (Inl NoActiveTracks, w)"
  by (auto simp: cmd_mix_def cmd_render_def require_project_def Let_def)

theorem zero_active_tracks_fail_witness:
  "project_file (ex_world [ex_track 1 (Some ''a.wav'') (PInt 1) True False,
                           ex_track 2 None (PInt 1) False True] None) \<noteq> None
   \<and> get_active_tracks (tracks_file (ex_world [ex_track 1 (Some ''a.wav'') (PInt 1) True False,
                           ex_track 2 None (PInt 1) False True] None)) = []
   \<and> fst (cmd_mix (ex_env ex_sox_ok) \<lparr>arg_output = None, arg_no_play = False\<rparr>
        (ex_world [ex_track 1 (Some ''a.wav'') (PInt 1) True False,
                   ex_track 2 None (PInt 1) False True] None)) = Inl NoActiveTracks
   \<and> trace (snd (cmd_mix (ex_env ex_sox_ok) \<lparr>arg_output = None, arg_no_play = False\<rparr>
        (ex_world [ex_track 1 (Some ''a.wav'') (PInt 1) True False,
                   ex_track 2 None (PInt 1) False True] None))) = []"
proof -
  let ?w = "ex_world [ex_track 1 (Some ''a.wav'') (PInt 1) True False,
                      ex_track 2 None (PInt 1) False True] None"
  have h1: "project_file ?w \<noteq> None" by (simp add: ex_world_def)
  have h2: "get_active_tracks (tracks_file ?w) = []"
    by (simp add: ex_world_def ex_track_def get_active_tracks_def has_source_def)
  have t: "trace ?w = []" by (simp add: ex_world_def)
  show ?thesis
    using zero_active_tracks_fail[OF h1 h2, of "ex_env ex_sox_ok" "\<lparr>arg_output = None, arg_no_play = False\<rparr>"]
      h1 h2 t by simp
qed

subsection \<open>Temporary paths of different tracks differ\<close>











subsection \<open>Invocations of a mixdown\<close>






subsection \<open>Temporary files and the final output\<close>

lemma rmtree_in_tree: "in_tree d p \<Longrightarrow> rmtree d f p = None"
  by (simp add: rmtree_def)


lemma tmp_path_in_tree: "d \<noteq> [] \<Longrightarrow> in_tree d (tmp_path d t)"
  by (simp add: in_tree_def tmp_path_def path_join_def)

lemma with_tmpdir_clean:
  "in_tree (mkdtemp e) p \<Longrightarrow> files (snd (with_tmpdir e body w)) p = None"
  by (simp add: with_tmpdir_def Let_def rmtree_in_tree split: prod.splits)

lemma cmd_render_render_active:
  assumes "project_file w \<noteq> None" and "get_active_tracks (tracks_file w) \<noteq> []"
  shows "\<exists>pd. get_project_dir e w = Inr pd \<and>
           cmd_render e a w =
             render_active e (get_active_tracks (tracks_file w)) (final_output e a w)
               (w\<lparr>files := mkdir pd (files w)\<rparr>)"
proof -
  have fo: "final_output e (a\<lparr>arg_no_play := True\<rparr>) w = final_output e a w"
    by (simp add: final_output_def split: sum.splits)
  from cmd_mix_unfold[OF assms, of e "a\<lparr>arg_no_play := True\<rparr>"] obtain pd where
    g: "get_project_dir e w = Inr pd" and
    m: "cmd_mix e (a\<lparr>arg_no_play := True\<rparr>) w =
          (case render_active e (get_active_tracks (tracks_file w))
                  (final_output e (a\<lparr>arg_no_play := True\<rparr>) w)
                  (w\<lparr>files := mkdir pd (files w)\<rparr>) of
             (Inl err, w2) \<Rightarrow> (Inl err, w2)
           | (Inr u, w2) \<Rightarrow>
               if \<not> arg_no_play (a\<lparr>arg_no_play := True\<rparr>)
               then run_sox e [''play'', final_output e (a\<lparr>arg_no_play := True\<rparr>) w] w2
               else (Inr (), w2))"
    by blast
  have "cmd_render e a w =
          render_active e (get_active_tracks (tracks_file w)) (final_output e a w)
            (w\<lparr>files := mkdir pd (files w)\<rparr>)"
    unfolding cmd_render_def m fo
    by (cases "render_active e (get_active_tracks (tracks_file w)) (final_output e a w)
            (w\<lparr>files := mkdir pd (files w)\<rparr>)")
       (auto split: sum.splits)
  with g show ?thesis by blast
qed

text \<open>
  C3. A mixdown of two or more active tracks leaves nothing in the temporary directory,
  and so none of the temporary files of its tracks, whatever the outcome of the call:
  success, a failing render of a track or a failing combine. This holds for the render
  call \<open>cmd_render\<close> and for the rendering step shared by \<open>cmd_mix\<close> and \<open>cmd_loop\<close>.
\<close>

theorem temporary_files_removed:
  assumes "project_file w \<noteq> None" and "2 \<le> length (get_active_tracks (tracks_file w))"
  shows "(\<forall>p. in_tree (mkdtemp e) p \<longrightarrow> files (snd (cmd_render e a w)) p = None)
       \<and> (\<forall>p. in_tree (mkdtemp e) p \<longrightarrow>
             files (snd (render_active e (get_active_tracks (tracks_file w)) out w)) p = None)
       \<and> (mkdtemp e \<noteq> [] \<longrightarrow>
            (\<forall>t \<in> set (get_active_tracks (tracks_file w)).
               files (snd (cmd_render e a w)) (tmp_path (mkdtemp e) t) = None))"
proof -
  let ?ts = "get_active_tracks (tracks_file w)"
  have ne: "?ts \<noteq> []" using assms(2) by auto
  from cmd_render_render_active[OF assms(1) ne, of e a] obtain pd where
    cr: "cmd_render e a w = render_active e ?ts (final_output e a w) (w\<lparr>files := mkdir pd (files w)\<rparr>)"
    by blast
  have a: "\<And>p. in_tree (mkdtemp e) p \<Longrightarrow> files (snd (cmd_render e a w)) p = None"
    unfolding cr render_active_multi[OF assms(2)] by (rule with_tmpdir_clean)
  have b: "\<And>p. in_tree (mkdtemp e) p \<Longrightarrow> files (snd (render_active e ?ts out w)) p = None"
    unfolding render_active_multi[OF assms(2)] by (rule with_tmpdir_clean)
  show ?thesis using a b tmp_path_in_tree by blast
qed


theorem temporary_files_removed_witness:
  "project_file (ex_world [ex_track 1 (Some ''a.wav'') (PFloat ''1.0'') False False,
                           ex_track 2 (Some ''b.wav'') (PFloat ''0.5'') False False] None) \<noteq> None
   \<and> fst (cmd_render (ex_env ex_sox_combine_fails) \<lparr>arg_output = None, arg_no_play = False\<rparr>
        (ex_world [ex_track 1 (Some ''a.wav'') (PFloat ''1.0'') False False,
                   ex_track 2 (Some ''b.wav'') (PFloat ''0.5'') False False] None))
       = Inl (CalledProcessError [''sox'', ''-m'', ''/tmp/tmpk3/track_1.wav'',
               ''/tmp/tmpk3/track_2.wav'', ''/cornwall/projects/demo/mix.wav''])
   \<and> files (snd (cmd_render (ex_env ex_sox_combine_fails) \<lparr>arg_output = None, arg_no_play = False\<rparr>
        (ex_world [ex_track 1 (Some ''a.wav'') (PFloat ''1.0'') False False,
                   ex_track 2 (Some ''b.wav'') (PFloat ''0.5'') False False] None)))
       ''/tmp/tmpk3/track_1.wav'' = None
   \<and> files (snd (cmd_render (ex_env ex_sox_combine_fails) \<lparr>arg_output = None, arg_no_play = False\<rparr>
        (ex_world [ex_track 1 (Some ''a.wav'') (PFloat ''1.0'') False False,
                   ex_track 2 (Some ''b.wav'') (PFloat ''0.5'') False False] None)))
       ''/tmp/tmpk3/track_2.wav'' = None
   \<and> files (snd (mix_body (ex_env ex_sox_combine_fails)
        [ex_track 1 (Some ''a.wav'') (PFloat ''1.0'') False False,
         ex_track 2 (Some ''b.wav'') (PFloat ''0.5'') False False]
        ''/cornwall/projects/demo/mix.wav'' ''/tmp/tmpk3''
        (ex_world [ex_track 1 (Some ''a.wav'') (PFloat ''1.0'') False False,
                   ex_track 2 (Some ''b.wav'') (PFloat ''0.5'') False False] None)))
       ''/tmp/tmpk3/track_2.wav'' = Some (File ''RIFF complete'')"
proof -
  let ?t1 = "ex_track 1 (Some ''a.wav'') (PFloat ''1.0'') False False"
  let ?t2 = "ex_track 2 (Some ''b.wav'') (PFloat ''0.5'') False False"
  let ?w = "ex_world [?t1, ?t2] None"
  let ?e = "ex_env ex_sox_combine_fails"
  let ?a = "\<lparr>arg_output = None, arg_no_play = False\<rparr>"
  have ts: "get_active_tracks (tracks_file ?w) = [?t1, ?t2]"
    by (simp add: ex_world_def ex_track_def get_active_tracks_def has_source_def)
  have h1: "project_file ?w \<noteq> None" by (simp add: ex_world_def)
  have h2: "2 \<le> length (get_active_tracks (tracks_file ?w))" by (simp add: ts)
  have d: "mkdtemp ?e \<noteq> []" by (simp add: ex_env_def)
  have p1: "tmp_path (mkdtemp ?e) ?t1 = ''/tmp/tmpk3/track_1.wav''" by code_simp
  have p2: "tmp_path (mkdtemp ?e) ?t2 = ''/tmp/tmpk3/track_2.wav''" by code_simp
  have r: "fst (cmd_render ?e ?a ?w)
       = Inl (CalledProcessError [''sox'', ''-m'', ''/tmp/tmpk3/track_1.wav'',
               ''/tmp/tmpk3/track_2.wav'', ''/cornwall/projects/demo/mix.wav''])"
    by code_simp
  have inside: "files (snd (mix_body ?e [?t1, ?t2] ''/cornwall/projects/demo/mix.wav''
        ''/tmp/tmpk3'' ?w)) ''/tmp/tmpk3/track_2.wav'' = Some (File ''RIFF complete'')"
    by code_simp
  note c = temporary_files_removed[OF h1 h2, of ?e ?a, THEN conjunct2, THEN conjunct2,
      rule_format, OF d]
  have c1: "files (snd (cmd_render ?e ?a ?w)) (tmp_path (mkdtemp ?e) ?t1) = None"
    by (rule c) (simp add: ts)
  have c2: "files (snd (cmd_render ?e ?a ?w)) (tmp_path (mkdtemp ?e) ?t2) = None"
    by (rule c) (simp add: ts)
  show ?thesis
    using h1 r c1[unfolded p1] c2[unfolded p2] inside by blast
qed







subsection \<open>The playback handle\<close>

















end
